theory Spec2Isabelle
  imports Complex_Main
begin

section \<open>Structure from motion: depth of tracked features from their disparity\<close>

text \<open>
  A shallow embedding of the class \<open>StructureFromMotion\<close> of
  \<open>structureFromMotion.py\<close>: the decomposition of a feature's disparity, its weighting
  by the camera's velocities, the depth and camera-space position computed from it, the
  per-frame loop over the tracked features, and the camera's position update.

  The leading underscore of the source's private methods is dropped
  (\<open>_calcDistance\<close> is \<open>calcDistance\<close>), since an Isabelle name starts with a letter.
\<close>

subsection \<open>NumPy floating-point values\<close>

text \<open>
  Every number the class computes with is a NumPy scalar or array element. NumPy does not
  raise on a division by zero or an invalid operation: it warns and returns an infinity or
  NaN. A value is therefore a finite number, one of the two infinities, or NaN, and the
  arithmetic below follows IEEE 754 on the non-finite values.

  Finite values are idealised: arithmetic on them is exact real arithmetic. Rounding,
  overflow and underflow are not modelled, and neither is the sign of a zero: a finite
  nonzero value divided by zero gives the infinity with the sign of the dividend.
\<close>

datatype npfloat = Fin real | PInf | NInf | NaN

fun np_neg :: "npfloat \<Rightarrow> npfloat" where
  "np_neg (Fin a) = Fin (- a)"
| "np_neg PInf = NInf"
| "np_neg NInf = PInf"
| "np_neg NaN = NaN"

fun np_plus :: "npfloat \<Rightarrow> npfloat \<Rightarrow> npfloat" where
  "np_plus (Fin a) (Fin b) = Fin (a + b)"
| "np_plus NaN _ = NaN"
| "np_plus _ NaN = NaN"
| "np_plus PInf NInf = NaN"
| "np_plus NInf PInf = NaN"
| "np_plus PInf _ = PInf"
| "np_plus _ PInf = PInf"
| "np_plus NInf _ = NInf"
| "np_plus _ NInf = NInf"

definition np_minus :: "npfloat \<Rightarrow> npfloat \<Rightarrow> npfloat" where
  "np_minus a b = np_plus a (np_neg b)"

definition signed_inf :: "bool \<Rightarrow> npfloat" where
  "signed_inf positive = (if positive then PInf else NInf)"

fun np_times :: "npfloat \<Rightarrow> npfloat \<Rightarrow> npfloat" where
  "np_times (Fin a) (Fin b) = Fin (a * b)"
| "np_times NaN _ = NaN"
| "np_times _ NaN = NaN"
| "np_times (Fin a) PInf = (if a = 0 then NaN else signed_inf (0 < a))"
| "np_times (Fin a) NInf = (if a = 0 then NaN else signed_inf (a < 0))"
| "np_times PInf (Fin b) = (if b = 0 then NaN else signed_inf (0 < b))"
| "np_times NInf (Fin b) = (if b = 0 then NaN else signed_inf (b < 0))"
| "np_times PInf PInf = PInf"
| "np_times PInf NInf = NInf"
| "np_times NInf PInf = NInf"
| "np_times NInf NInf = PInf"

fun np_divide :: "npfloat \<Rightarrow> npfloat \<Rightarrow> npfloat" where
  "np_divide (Fin a) (Fin b) =
     (if b = 0 then (if a = 0 then NaN else signed_inf (0 < a)) else Fin (a / b))"
| "np_divide NaN _ = NaN"
| "np_divide _ NaN = NaN"
| "np_divide (Fin a) PInf = Fin 0"
| "np_divide (Fin a) NInf = Fin 0"
| "np_divide PInf (Fin b) = signed_inf (0 \<le> b)"
| "np_divide NInf (Fin b) = signed_inf (b < 0)"
| "np_divide PInf PInf = NaN"
| "np_divide PInf NInf = NaN"
| "np_divide NInf PInf = NaN"
| "np_divide NInf NInf = NaN"

fun np_sqrt :: "npfloat \<Rightarrow> npfloat" where
  "np_sqrt (Fin a) = (if a < 0 then NaN else Fin (sqrt a))"
| "np_sqrt PInf = PInf"
| "np_sqrt NInf = NaN"
| "np_sqrt NaN = NaN"

subsection \<open>Arrays\<close>

text \<open>
  A pixel position and a disparity are arrays of shape (2,), the three camera vectors are
  arrays of shape (3,) (the constructor's defaults), and the position a feature resolves to
  is the array of shape (5,) that \<open>calculate_camera_space_position_of_feature\<close> builds.
  The arrays that are only indexed or combined with arrays of their own shape are tuples;
  the array of shape (5,) is a list, added to another array by NumPy's broadcasting rule,
  which raises \<open>ValueError\<close> when the two shapes do not fit.
\<close>

type_synonym vec2 = "npfloat \<times> npfloat"
type_synonym vec3 = "npfloat \<times> npfloat \<times> npfloat"

datatype py_error = ValueError

definition vec2_sub :: "vec2 \<Rightarrow> vec2 \<Rightarrow> vec2" where
  "vec2_sub a b = (np_minus (fst a) (fst b), np_minus (snd a) (snd b))"

definition vec2_div :: "vec2 \<Rightarrow> npfloat \<Rightarrow> vec2" where
  "vec2_div a s = (np_divide (fst a) s, np_divide (snd a) s)"

text \<open>\<open>np.linalg.norm\<close> of an array of shape (2,): the square root of its dot product with itself.\<close>

definition linalg_norm :: "vec2 \<Rightarrow> npfloat" where
  "linalg_norm a = np_sqrt (np_plus (np_times (fst a) (fst a)) (np_times (snd a) (snd a)))"

definition vec3_add :: "vec3 \<Rightarrow> vec3 \<Rightarrow> vec3" where
  "vec3_add a b =
     (case a of (a0, a1, a2) \<Rightarrow> case b of (b0, b1, b2) \<Rightarrow>
        (np_plus a0 b0, np_plus a1 b1, np_plus a2 b2))"

definition vec3_scale :: "vec3 \<Rightarrow> npfloat \<Rightarrow> vec3" where
  "vec3_scale a s = (case a of (a0, a1, a2) \<Rightarrow> (np_times a0 s, np_times a1 s, np_times a2 s))"

definition vec3_array :: "vec3 \<Rightarrow> npfloat list" where
  "vec3_array a = (case a of (a0, a1, a2) \<Rightarrow> [a0, a1, a2])"

text \<open>
  \<open>a + b\<close> on one-dimensional arrays: element by element when the lengths agree, an
  array of length 1 is stretched to the other's length, anything else raises.
\<close>

definition np_add :: "npfloat list \<Rightarrow> npfloat list \<Rightarrow> py_error + npfloat list" where
  "np_add xs ys =
     (if length xs = length ys then Inr (map2 np_plus xs ys)
      else if length ys = 1 then Inr (map (\<lambda>x. np_plus x (hd ys)) xs)
      else if length xs = 1 then Inr (map (\<lambda>y. np_plus (hd xs) y) ys)
      else Inl ValueError)"

subsection \<open>The camera\<close>

text \<open>
  The fields \<open>_setupCamera\<close> and \<open>_setupMisc\<close> set that the geometry reads. The frames,
  the tracked points of the previous frame and the detector parameters belong to the
  tracker, which is outside this development: the loop over a frame's features takes the
  tracker's two point lists as arguments.
\<close>

record StructureFromMotion =
  target_scale :: "int \<times> int"
  focal_length :: npfloat
  camera_pos :: vec3
  camera_vel :: vec3
  camera_rot :: vec3
  camera_rvel :: vec3
  find_in_camera_space :: bool
  center :: vec2

text \<open>A Python \<open>int\<close> entering float arithmetic.\<close>

definition of_py_int :: "int \<Rightarrow> npfloat" where
  "of_py_int i = Fin (of_int i)"

text \<open>
  \<open>__init__\<close>, with the arguments in the order of its signature: \<open>_setupCamera\<close> stores
  them and \<open>_setupMisc\<close> sets \<open>center\<close> to half the target scale.
\<close>

definition init :: "vec3 \<Rightarrow> vec3 \<Rightarrow> vec3 \<Rightarrow> vec3 \<Rightarrow> bool \<Rightarrow> int \<times> int \<Rightarrow> npfloat \<Rightarrow> StructureFromMotion" where
  "init cam_pos cam_vel cam_rot cam_rvel camera_space scale focal =
     \<lparr> target_scale = scale,
       focal_length = focal,
       camera_pos = cam_pos,
       camera_vel = cam_vel,
       camera_rot = cam_rot,
       camera_rvel = cam_rvel,
       find_in_camera_space = camera_space,
       center = (np_divide (of_py_int (fst scale)) (Fin 2),
                 np_divide (of_py_int (snd scale)) (Fin 2)) \<rparr>"

definition set_camera_velocity :: "StructureFromMotion \<Rightarrow> vec3 \<Rightarrow> StructureFromMotion" where
  "set_camera_velocity self new_velocity = self\<lparr>camera_vel := new_velocity\<rparr>"

subsection \<open>Decomposition of a disparity\<close>

definition calcVanishingPoint :: "StructureFromMotion \<Rightarrow> vec2 \<Rightarrow> vec2" where
  "calcVanishingPoint self disparity_origin =
     (let radial_vector = vec2_sub (center self) disparity_origin
      in vec2_div radial_vector (linalg_norm radial_vector))"

definition distributeDisparity :: "vec2 \<Rightarrow> vec2 \<Rightarrow> npfloat \<times> npfloat \<times> npfloat" where
  "distributeDisparity disparity radial_vector =
     (let x_disparity = np_neg (fst disparity);
          y_disparity = np_neg (snd disparity);
          z_disparity = np_plus (np_times (fst radial_vector) x_disparity)
                                (np_times (snd radial_vector) y_disparity)
      in (x_disparity, y_disparity, z_disparity))"

definition calcRotationalDisparities :: "vec2 \<Rightarrow> npfloat \<Rightarrow> npfloat \<Rightarrow> npfloat \<times> npfloat \<times> npfloat" where
  "calcRotationalDisparities radial_vector x_disparity y_disparity =
     (let perpendicular_vector = (snd radial_vector, np_neg (fst radial_vector));
          roll_disparity = np_plus (np_times (fst perpendicular_vector) x_disparity)
                                   (np_times (snd perpendicular_vector) y_disparity);
          yaw_disparity = x_disparity;
          pitch_disparity = y_disparity
      in (roll_disparity, yaw_disparity, pitch_disparity))"

subsection \<open>Weighting and depth\<close>

definition calcWeightedDisparity ::
  "StructureFromMotion \<Rightarrow> npfloat \<Rightarrow> npfloat \<Rightarrow> npfloat \<Rightarrow> npfloat \<Rightarrow> npfloat \<Rightarrow> npfloat \<Rightarrow> npfloat" where
  "calcWeightedDisparity self x_disparity y_disparity z_disparity
       pitch_disparity yaw_disparity roll_disparity =
     (case camera_vel self of (vel0, vel1, vel2) \<Rightarrow>
      case camera_rvel self of (rvel0, rvel1, rvel2) \<Rightarrow>
        np_plus (np_plus (np_plus (np_plus (np_plus
          (np_times x_disparity vel0)
          (np_times y_disparity vel1))
          (np_times z_disparity vel2))
          (np_times pitch_disparity rvel0))
          (np_times yaw_disparity rvel1))
          (np_times roll_disparity rvel2))"

definition calcDistance :: "StructureFromMotion \<Rightarrow> npfloat \<Rightarrow> npfloat" where
  "calcDistance self weighted_disparity =
     np_divide (focal_length self) (np_times weighted_disparity (Fin 10))"

text \<open>
  The rotational disparities as \<open>calculate_distance_from_disparity\<close> obtains them: its
  call of \<open>_calcRotationalDisparities\<close> passes \<open>z_disparity\<close> as the third argument.
\<close>

definition rotational_disparities :: "StructureFromMotion \<Rightarrow> vec2 \<Rightarrow> vec2 \<Rightarrow> npfloat \<times> npfloat \<times> npfloat" where
  "rotational_disparities self disparity_origin disparity =
     (let radial_vector = calcVanishingPoint self disparity_origin
      in case distributeDisparity disparity radial_vector of
           (x_disparity, y_disparity, z_disparity) \<Rightarrow>
             calcRotationalDisparities radial_vector x_disparity z_disparity)"

text \<open>The local \<open>weighted_disparity\<close> of \<open>calculate_distance_from_disparity\<close>.\<close>

definition weighted_disparity :: "StructureFromMotion \<Rightarrow> vec2 \<Rightarrow> vec2 \<Rightarrow> npfloat" where
  "weighted_disparity self disparity_origin disparity =
     (let radial_vector = calcVanishingPoint self disparity_origin
      in case distributeDisparity disparity radial_vector of
           (x_disparity, y_disparity, z_disparity) \<Rightarrow>
      case calcRotationalDisparities radial_vector x_disparity z_disparity of
           (roll_disparity, yaw_disparity, pitch_disparity) \<Rightarrow>
        calcWeightedDisparity self x_disparity y_disparity z_disparity
          pitch_disparity yaw_disparity roll_disparity)"

definition calculate_distance_from_disparity :: "StructureFromMotion \<Rightarrow> vec2 \<Rightarrow> vec2 \<Rightarrow> npfloat" where
  "calculate_distance_from_disparity self disparity_origin disparity =
     (let radial_vector = calcVanishingPoint self disparity_origin
      in case distributeDisparity disparity radial_vector of
           (x_disparity, y_disparity, z_disparity) \<Rightarrow>
      case calcRotationalDisparities radial_vector x_disparity z_disparity of
           (roll_disparity, yaw_disparity, pitch_disparity) \<Rightarrow>
        (let weighted_disparity = calcWeightedDisparity self x_disparity y_disparity z_disparity
               pitch_disparity yaw_disparity roll_disparity
         in calcDistance self weighted_disparity))"

subsection \<open>Position of a feature and the points of a frame\<close>

text \<open>
  The array \<open>calculate_camera_space_position_of_feature\<close> returns; the method also prints
  \<open>x\<close> and \<open>y\<close>, which changes no value.
\<close>

definition calculate_camera_space_position_of_feature ::
  "StructureFromMotion \<Rightarrow> vec2 \<Rightarrow> vec2 \<Rightarrow> npfloat list" where
  "calculate_camera_space_position_of_feature self new old =
     (let disparity = vec2_sub new old;
          distance = calculate_distance_from_disparity self old disparity;
          scale0 = of_py_int (fst (target_scale self));
          scale1 = of_py_int (snd (target_scale self));
          x = np_times
                (np_divide (np_times (np_minus (fst new) (np_divide scale0 (Fin 2))) distance)
                           (np_times (focal_length self) scale0))
                (Fin 1000);
          y = np_times
                (np_divide (np_times (np_minus (snd new) (np_divide scale1 (Fin 2))) distance)
                           (np_times (focal_length self) scale1))
                (Fin 1000)
      in [x, y, distance, fst new, snd new])"

text \<open>
  The loop of \<open>get_frame_points\<close> over \<open>zip(good_new, good_old)\<close>. An exception raised
  for one feature leaves the loop and the method.
\<close>

fun frame_points_loop ::
  "StructureFromMotion \<Rightarrow> (vec2 \<times> vec2) list \<Rightarrow> py_error + npfloat list list" where
  "frame_points_loop self [] = Inr []"
| "frame_points_loop self ((new, old) # rest) =
     (let cam_pos = calculate_camera_space_position_of_feature self new old
      in if \<not> find_in_camera_space self then
           (case np_add cam_pos (vec3_array (camera_pos self)) of
              Inl e \<Rightarrow> Inl e
            | Inr world_pos \<Rightarrow>
                (case frame_points_loop self rest of
                   Inl e \<Rightarrow> Inl e
                 | Inr frame_points \<Rightarrow> Inr (world_pos # frame_points)))
         else
           (case frame_points_loop self rest of
              Inl e \<Rightarrow> Inl e
            | Inr frame_points \<Rightarrow> Inr (cam_pos # frame_points)))"

text \<open>
  \<open>get_frame_points\<close>, given what \<open>calculate_optical_flow\<close> returned for the frame:
  \<open>good_new\<close> is \<open>None\<close> when the tracker found no points.
\<close>

definition get_frame_points ::
  "StructureFromMotion \<Rightarrow> vec2 list option \<Rightarrow> vec2 list \<Rightarrow> py_error + npfloat list list" where
  "get_frame_points self good_new good_old =
     (case good_new of
        None \<Rightarrow> Inr []
      | Some points \<Rightarrow> frame_points_loop self (zip points good_old))"

text \<open>\<open>update\<close> reads the global \<open>dt\<close>, here its second argument.\<close>

definition update :: "StructureFromMotion \<Rightarrow> npfloat \<Rightarrow> StructureFromMotion" where
  "update self dt =
     self\<lparr>camera_pos := vec3_add (camera_pos self) (vec3_scale (camera_vel self) dt)\<rparr>"

subsection \<open>A camera for the examples\<close>

text \<open>
  The camera of the examples below: at the origin, frame size 640 by 360 (center
  (320, 180)), focal length 38.199, with the velocities and the output mode left open.
\<close>

abbreviation zero3 :: vec3 where
  "zero3 \<equiv> (Fin 0, Fin 0, Fin 0)"

abbreviation scenario_camera :: "vec3 \<Rightarrow> vec3 \<Rightarrow> bool \<Rightarrow> StructureFromMotion" where
  "scenario_camera vel rvel camera_space \<equiv>
     init zero3 vel zero3 rvel camera_space (640, 360) (Fin (38199 / 1000))"

section \<open>Properties\<close>

subsection \<open>Arithmetic facts\<close>

lemma sqrt_400: "sqrt 400 = 20"
  by (rule real_sqrt_unique) simp_all

lemma np_times_NaN_right [simp]: "np_times a NaN = NaN"
  by (cases a) simp_all

lemma np_plus_NaN_right [simp]: "np_plus a NaN = NaN"
  by (cases a) simp_all

lemma np_divide_NaN_right [simp]: "np_divide a NaN = NaN"
  by (cases a) simp_all

lemma sum_squares_pos:
  fixes a b :: real
  assumes "a \<noteq> 0 \<or> b \<noteq> 0"
  shows "0 < a * a + b * b"
  using assms
  by (metis add_pos_nonneg add_nonneg_pos zero_le_square not_real_square_gt_zero)

lemma radial_unit:
  fixes a b :: real
  assumes "a \<noteq> 0 \<or> b \<noteq> 0"
  shows "(a / sqrt (a * a + b * b))\<^sup>2 + (b / sqrt (a * a + b * b))\<^sup>2 = 1"
proof -
  have pos: "0 < a * a + b * b"
    using assms by (rule sum_squares_pos)
  have "(a / sqrt (a * a + b * b))\<^sup>2 + (b / sqrt (a * a + b * b))\<^sup>2
        = (a * a + b * b) / (sqrt (a * a + b * b))\<^sup>2"
    by (simp only: power_divide add_divide_distrib power2_eq_square [of a] power2_eq_square [of b])
  also have "\<dots> = (a * a + b * b) / (a * a + b * b)"
    using pos by (simp only: real_sqrt_pow2 less_imp_le)
  also have "\<dots> = 1"
  proof -
    have "a * a + b * b \<noteq> 0" using pos by linarith
    then show ?thesis by (rule divide_self)
  qed
  finally show ?thesis .
qed

lemma scale_fixed_iff:
  fixes a b k :: real
  shows "k * a + b = k * (a + b) \<longleftrightarrow> k = 1 \<or> b = 0"
proof -
  have "k * a + b = k * (a + b) \<longleftrightarrow> (k - 1) * b = 0"
    by (simp add: algebra_simps)
  then show ?thesis by simp
qed

lemma scale_fixed_iff':
  fixes a b k :: real
  shows "a + k * b = k * (a + b) \<longleftrightarrow> k = 1 \<or> a = 0"
proof -
  have "a + k * b = k * (a + b) \<longleftrightarrow> (k - 1) * a = 0"
    by (simp add: algebra_simps)
  then show ?thesis by simp
qed

subsection \<open>The radial vector of a feature off the center\<close>

lemma calcVanishingPoint_finite:
  assumes c: "center self = (Fin cx, Fin cy)"
    and ne: "(ox, oy) \<noteq> (cx, cy)"
  shows "calcVanishingPoint self (Fin ox, Fin oy) =
           (Fin ((cx - ox) / sqrt ((cx - ox) * (cx - ox) + (cy - oy) * (cy - oy))),
            Fin ((cy - oy) / sqrt ((cx - ox) * (cx - ox) + (cy - oy) * (cy - oy))))"
proof -
  have "cx - ox \<noteq> 0 \<or> cy - oy \<noteq> 0" using ne by auto
  then have pos: "0 < (cx - ox) * (cx - ox) + (cy - oy) * (cy - oy)"
    by (rule sum_squares_pos)
  then have "0 < sqrt ((cx - ox) * (cx - ox) + (cy - oy) * (cy - oy))"
    by (rule real_sqrt_gt_zero)
  then have nz: "sqrt ((cx - ox) * (cx - ox) + (cy - oy) * (cy - oy)) \<noteq> 0"
    by linarith
  have nn: "\<not> (cx - ox) * (cx - ox) + (cy - oy) * (cy - oy) < 0"
    using pos by linarith
  show ?thesis
    unfolding calcVanishingPoint_def vec2_sub_def vec2_div_def linalg_norm_def np_minus_def Let_def c
    using nz nn by simp
qed

lemma calcVanishingPoint_unit:
  assumes c: "center self = (Fin cx, Fin cy)"
    and ne: "(ox, oy) \<noteq> (cx, cy)"
  obtains rx ry where "calcVanishingPoint self (Fin ox, Fin oy) = (Fin rx, Fin ry)"
    and "rx\<^sup>2 + ry\<^sup>2 = 1"
proof -
  have "cx - ox \<noteq> 0 \<or> cy - oy \<noteq> 0" using ne by auto
  then have "((cx - ox) / sqrt ((cx - ox) * (cx - ox) + (cy - oy) * (cy - oy)))\<^sup>2
           + ((cy - oy) / sqrt ((cx - ox) * (cx - ox) + (cy - oy) * (cy - oy)))\<^sup>2 = 1"
    by (rule radial_unit)
  with calcVanishingPoint_finite [OF c ne] that show thesis by blast
qed

lemma center_init:
  "center (init p v r w cs (sx, sy) f) = (Fin (real_of_int sx / 2), Fin (real_of_int sy / 2))"
  by (simp add: init_def of_py_int_def)

lemma calcVanishingPoint_scenario:
  assumes "center self = (Fin 320, Fin 180)"
  shows "calcVanishingPoint self (Fin 340, Fin 180) = (Fin (- 1), Fin 0)"
  using calcVanishingPoint_finite [OF assms, of 340 180] by (simp add: sqrt_400)

subsection \<open>Translational decomposition\<close>

text \<open>
  Claim C4. For a previous pixel position off the frame center, the radial vector is a finite
  unit vector \<open>(rx, ry)\<close>, and for every finite disparity \<open>(dx, dy)\<close> the translational
  decomposition is \<open>x = - dx\<close>, \<open>y = - dy\<close> and \<open>z = rx * x + ry * y\<close>.
\<close>

theorem distributeDisparity_translational:
  assumes "center self = (Fin cx, Fin cy)" and "(ox, oy) \<noteq> (cx, cy)"
  shows "\<exists>rx ry. calcVanishingPoint self (Fin ox, Fin oy) = (Fin rx, Fin ry)
           \<and> rx\<^sup>2 + ry\<^sup>2 = 1
           \<and> distributeDisparity (Fin dx, Fin dy) (calcVanishingPoint self (Fin ox, Fin oy))
               = (Fin (- dx), Fin (- dy), Fin (rx * (- dx) + ry * (- dy)))"
proof -
  obtain rx ry where r: "calcVanishingPoint self (Fin ox, Fin oy) = (Fin rx, Fin ry)"
    and u: "rx\<^sup>2 + ry\<^sup>2 = 1"
    using assms by (rule calcVanishingPoint_unit)
  have "distributeDisparity (Fin dx, Fin dy) (Fin rx, Fin ry)
          = (Fin (- dx), Fin (- dy), Fin (rx * (- dx) + ry * (- dy)))"
    by (simp add: distributeDisparity_def)
  with r u show ?thesis by simp
qed

theorem distributeDisparity_translational_witness:
  "center (init (Fin 0, Fin 0, Fin 0) (Fin 0, Fin 0, Fin 1) (Fin 0, Fin 0, Fin 0)
             (Fin 0, Fin 0, Fin 0) True (640, 360) (Fin (38199 / 1000))) = (Fin 320, Fin 180)
   \<and> (340, 180) \<noteq> (320 :: real, 180 :: real)
   \<and> distributeDisparity (Fin 1, Fin 0)
        (calcVanishingPoint (init (Fin 0, Fin 0, Fin 0) (Fin 0, Fin 0, Fin 1) (Fin 0, Fin 0, Fin 0)
             (Fin 0, Fin 0, Fin 0) True (640, 360) (Fin (38199 / 1000))) (Fin 340, Fin 180))
       = (Fin (- 1), Fin 0, Fin 1)"
proof -
  let ?self = "init (Fin 0, Fin 0, Fin 0) (Fin 0, Fin 0, Fin 1) (Fin 0, Fin 0, Fin 0)
             (Fin 0, Fin 0, Fin 0) True (640, 360) (Fin (38199 / 1000))"
  have c: "center ?self = (Fin 320, Fin 180)" by (simp add: center_init)
  have ne: "(340, 180) \<noteq> (320 :: real, 180 :: real)" by simp
  have v: "calcVanishingPoint ?self (Fin 340, Fin 180) = (Fin (- 1), Fin 0)"
    using c by (rule calcVanishingPoint_scenario)
  from distributeDisparity_translational [OF c ne, of 1 0] v
  have "distributeDisparity (Fin 1, Fin 0) (calcVanishingPoint ?self (Fin 340, Fin 180))
          = (Fin (- 1), Fin 0, Fin 1)"
    by auto
  with c ne show ?thesis by blast
qed

subsection \<open>The weighted disparity in closed form\<close>

lemma weighted_disparity_radial:
  assumes r: "calcVanishingPoint self origin = (Fin rx, Fin ry)"
    and vel: "camera_vel self = (Fin v0, Fin v1, Fin v2)"
    and rvel: "camera_rvel self = (Fin r0, Fin r1, Fin r2)"
  shows "weighted_disparity self origin (Fin dx, Fin dy) =
           Fin ((- dx) * v0 + (- dy) * v1 + (rx * (- dx) + ry * (- dy)) * v2
                + (rx * (- dx) + ry * (- dy)) * r0 + (- dx) * r1
                + (ry * (- dx) + (- rx) * (rx * (- dx) + ry * (- dy))) * r2)"
  by (simp add: weighted_disparity_def r vel rvel distributeDisparity_def
      calcRotationalDisparities_def calcWeightedDisparity_def Let_def)

lemma weighted_disparity_homogeneous:
  assumes r: "calcVanishingPoint self origin = (Fin rx, Fin ry)"
    and vel: "camera_vel self = (Fin v0, Fin v1, Fin v2)"
    and rvel: "camera_rvel self = (Fin r0, Fin r1, Fin r2)"
  shows "weighted_disparity self origin (Fin (k * dx), Fin (k * dy))
           = np_times (Fin k) (weighted_disparity self origin (Fin dx, Fin dy))"
  unfolding weighted_disparity_radial [OF r vel rvel] by (simp add: algebra_simps)

lemma weighted_disparity_additive:
  assumes r: "calcVanishingPoint self origin = (Fin rx, Fin ry)"
    and vel: "camera_vel self = (Fin v0, Fin v1, Fin v2)"
    and rvel: "camera_rvel self = (Fin r0, Fin r1, Fin r2)"
  shows "weighted_disparity self origin (Fin (dx + ex), Fin (dy + ey))
           = np_plus (weighted_disparity self origin (Fin dx, Fin dy))
                     (weighted_disparity self origin (Fin ex, Fin ey))"
  unfolding weighted_disparity_radial [OF r vel rvel] by (simp add: algebra_simps)

lemma calculate_distance_weighted:
  "calculate_distance_from_disparity self origin disparity =
     calcDistance self (weighted_disparity self origin disparity)"
  by (simp add: calculate_distance_from_disparity_def weighted_disparity_def Let_def
      split: prod.splits)

lemma weighted_disparity_rotational:
  "weighted_disparity self origin disparity =
     (case distributeDisparity disparity (calcVanishingPoint self origin) of
        (x_disparity, y_disparity, z_disparity) \<Rightarrow>
      case rotational_disparities self origin disparity of
        (roll_disparity, yaw_disparity, pitch_disparity) \<Rightarrow>
          calcWeightedDisparity self x_disparity y_disparity z_disparity
            pitch_disparity yaw_disparity roll_disparity)"
  by (simp add: weighted_disparity_def rotational_disparities_def Let_def split: prod.splits)

lemma weighted_disparity_components:
  assumes r: "calcVanishingPoint self origin = (Fin rx, Fin ry)"
    and vel: "camera_vel self = (Fin v0, Fin v1, Fin v2)"
    and rvel: "camera_rvel self = (Fin r0, Fin r1, Fin r2)"
  shows "\<exists>x y z roll yaw pitch.
           distributeDisparity (Fin dx, Fin dy) (calcVanishingPoint self origin)
             = (Fin x, Fin y, Fin z)
         \<and> rotational_disparities self origin (Fin dx, Fin dy) = (Fin roll, Fin yaw, Fin pitch)
         \<and> weighted_disparity self origin (Fin dx, Fin dy)
             = Fin ((x * v0 + y * v1 + z * v2) + (pitch * r0 + yaw * r1 + roll * r2))"
proof -
  have t: "distributeDisparity (Fin dx, Fin dy) (calcVanishingPoint self origin)
             = (Fin (- dx), Fin (- dy), Fin (rx * (- dx) + ry * (- dy)))"
    by (simp add: r distributeDisparity_def)
  have q: "rotational_disparities self origin (Fin dx, Fin dy)
             = (Fin (ry * (- dx) + (- rx) * (rx * (- dx) + ry * (- dy))), Fin (- dx),
                Fin (rx * (- dx) + ry * (- dy)))"
    by (simp add: rotational_disparities_def r distributeDisparity_def
        calcRotationalDisparities_def Let_def)
  have w: "weighted_disparity self origin (Fin dx, Fin dy)
             = Fin (((- dx) * v0 + (- dy) * v1 + (rx * (- dx) + ry * (- dy)) * v2)
                  + ((rx * (- dx) + ry * (- dy)) * r0 + (- dx) * r1
                     + (ry * (- dx) + (- rx) * (rx * (- dx) + ry * (- dy))) * r2))"
    unfolding weighted_disparity_radial [OF r vel rvel] by simp
  from t q w show ?thesis by blast
qed

lemma scenario_center: "center (scenario_camera vel rvel cs) = (Fin 320, Fin 180)"
  by (simp add: center_init)

lemma scenario_radial:
  "calcVanishingPoint (scenario_camera vel rvel cs) (Fin 340, Fin 180) = (Fin (- 1), Fin 0)"
  by (rule calcVanishingPoint_scenario) (rule scenario_center)

lemma scenario_fields:
  "camera_vel (scenario_camera vel rvel cs) = vel"
  "camera_rvel (scenario_camera vel rvel cs) = rvel"
  "focal_length (scenario_camera vel rvel cs) = Fin (38199 / 1000)"
  "target_scale (scenario_camera vel rvel cs) = (640, 360)"
  "find_in_camera_space (scenario_camera vel rvel cs) = cs"
  "camera_pos (scenario_camera vel rvel cs) = zero3"
  by (simp_all add: init_def)

lemma scenario_weight:
  "weighted_disparity (scenario_camera (Fin v0, Fin v1, Fin v2) (Fin r0, Fin r1, Fin r2) cs)
     (Fin 340, Fin 180) (Fin dx, Fin dy)
     = Fin (dx * v2 + dx * r0 + dx * r2 - dx * v0 - dy * v1 - dx * r1)"
  using weighted_disparity_radial [OF scenario_radial scenario_fields(1) scenario_fields(2),
      of v0 v1 v2 r0 r1 r2 cs dx dy]
  by (simp add: algebra_simps)

lemma scenario_update:
  "(scenario_camera vel rvel cs)\<lparr>camera_vel := a\<rparr> = scenario_camera a rvel cs"
  "(scenario_camera vel rvel cs)\<lparr>camera_rvel := b\<rparr> = scenario_camera vel b cs"
  "(scenario_camera vel rvel cs)\<lparr>camera_vel := a, camera_rvel := b\<rparr> = scenario_camera a b cs"
  by (simp_all add: init_def)

subsection \<open>Rotational decomposition\<close>

text \<open>
  Claim C1 says that roll, yaw and pitch are computed from the translational \<open>x\<close> and
  \<open>y\<close>: \<open>roll = perp.x * x + perp.y * y\<close>, \<open>yaw = x\<close>, \<open>pitch = y\<close>. The function
  \<open>_calcRotationalDisparities\<close> does so with its arguments, but
  \<open>calculate_distance_from_disparity\<close> passes it \<open>z_disparity\<close> as \<open>y_disparity\<close>.
  With center (320, 180), previous pixel (340, 180) and disparity (1, 0) the translational
  components are \<open>x = - 1\<close>, \<open>y = 0\<close>, \<open>z = 1\<close>; the code's roll, yaw and pitch are
  1, - 1 and 1, where \<open>x\<close> and \<open>y\<close> would give 0, - 1 and 0.
\<close>

theorem rotational_disparities_failing_input:
  "distributeDisparity (Fin 1, Fin 0)
     (calcVanishingPoint (scenario_camera (Fin 0, Fin 0, Fin 1) zero3 True) (Fin 340, Fin 180))
     = (Fin (- 1), Fin 0, Fin 1)
   \<and> rotational_disparities (scenario_camera (Fin 0, Fin 0, Fin 1) zero3 True)
       (Fin 340, Fin 180) (Fin 1, Fin 0) = (Fin 1, Fin (- 1), Fin 1)
   \<and> calcRotationalDisparities
       (calcVanishingPoint (scenario_camera (Fin 0, Fin 0, Fin 1) zero3 True) (Fin 340, Fin 180))
       (Fin (- 1)) (Fin 0) = (Fin 0, Fin (- 1), Fin 0)"
  by (simp add: rotational_disparities_def scenario_radial distributeDisparity_def
      calcRotationalDisparities_def Let_def)

subsection \<open>The forward-motion scenario\<close>

text \<open>
  Claim C5. Frame size (640, 360), focal length 38.199, camera velocity (0, 0, 1), no
  angular velocity, previous pixel (340, 180), current pixel (341, 180): the center is
  (320, 180), the disparity (1, 0), the radial vector (- 1, 0), the decomposition
  \<open>x = - 1\<close>, \<open>y = 0\<close>, \<open>z = 1\<close>, the weighted disparity 1, the depth
  38.199 / (1 * 10) = 3.8199, and the camera-space x and y are the values of the
  back-projection formula; all of it exactly, in either output mode's camera.
\<close>

theorem scenario_forward_motion:
  "center (scenario_camera (Fin 0, Fin 0, Fin 1) zero3 cs) = (Fin 320, Fin 180)
   \<and> vec2_sub (Fin 341, Fin 180) (Fin 340, Fin 180) = (Fin 1, Fin 0)
   \<and> calcVanishingPoint (scenario_camera (Fin 0, Fin 0, Fin 1) zero3 cs) (Fin 340, Fin 180)
       = (Fin (- 1), Fin 0)
   \<and> distributeDisparity (Fin 1, Fin 0) (Fin (- 1), Fin 0) = (Fin (- 1), Fin 0, Fin 1)
   \<and> weighted_disparity (scenario_camera (Fin 0, Fin 0, Fin 1) zero3 cs)
       (Fin 340, Fin 180) (Fin 1, Fin 0) = Fin 1
   \<and> calculate_distance_from_disparity (scenario_camera (Fin 0, Fin 0, Fin 1) zero3 cs)
       (Fin 340, Fin 180) (Fin 1, Fin 0) = Fin (38199 / 1000 / (1 * 10))
   \<and> calculate_camera_space_position_of_feature (scenario_camera (Fin 0, Fin 0, Fin 1) zero3 cs)
       (Fin 341, Fin 180) (Fin 340, Fin 180)
       = [Fin ((341 - 640 / 2) * (38199 / 10000) / (38199 / 1000 * 640) * 1000),
          Fin ((180 - 360 / 2) * (38199 / 10000) / (38199 / 1000 * 360) * 1000),
          Fin (38199 / 10000), Fin 341, Fin 180]"
proof -
  let ?self = "scenario_camera (Fin 0, Fin 0, Fin 1) zero3 cs"
  have d: "vec2_sub (Fin 341, Fin 180) (Fin 340, Fin 180) = (Fin 1, Fin 0)"
    by (simp add: vec2_sub_def np_minus_def)
  have t: "distributeDisparity (Fin 1, Fin 0) (Fin (- 1), Fin 0) = (Fin (- 1), Fin 0, Fin 1)"
    by (simp add: distributeDisparity_def)
  have w: "weighted_disparity ?self (Fin 340, Fin 180) (Fin 1, Fin 0) = Fin 1"
    using weighted_disparity_radial [OF scenario_radial scenario_fields(1) scenario_fields(2), of 0 0 1 0 0 0 cs 1 0]
    by simp
  have z: "calculate_distance_from_disparity ?self (Fin 340, Fin 180) (Fin 1, Fin 0)
             = Fin (38199 / 10000)"
    by (simp add: calculate_distance_weighted w calcDistance_def scenario_fields)
  have p: "calculate_camera_space_position_of_feature ?self (Fin 341, Fin 180) (Fin 340, Fin 180)
       = [Fin ((341 - 640 / 2) * (38199 / 10000) / (38199 / 1000 * 640) * 1000),
          Fin ((180 - 360 / 2) * (38199 / 10000) / (38199 / 1000 * 360) * 1000),
          Fin (38199 / 10000), Fin 341, Fin 180]"
    unfolding calculate_camera_space_position_of_feature_def d Let_def z scenario_fields
    by (simp add: of_py_int_def np_minus_def)
  show ?thesis
    using scenario_center d scenario_radial t w z p by simp
qed

subsection \<open>Advancing the camera\<close>

text \<open>
  Claim C6. With finite position, velocity and time step, \<open>update\<close> sets the position to
  position + velocity * dt, component by component, in one step, and changes no other
  field. From position (0, 0, 0) with velocity (0, 0, 1) and dt = 0.05 the position
  becomes (0, 0, 0.05).
\<close>

theorem update_euler_step:
  assumes "camera_pos self = (Fin p0, Fin p1, Fin p2)"
    and "camera_vel self = (Fin v0, Fin v1, Fin v2)"
  shows "update self (Fin dt)
           = self\<lparr>camera_pos := (Fin (p0 + v0 * dt), Fin (p1 + v1 * dt), Fin (p2 + v2 * dt))\<rparr>"
  using assms by (simp add: update_def vec3_add_def vec3_scale_def)

theorem update_euler_step_witness:
  "camera_pos (scenario_camera (Fin 0, Fin 0, Fin 1) zero3 True) = (Fin 0, Fin 0, Fin 0)
   \<and> camera_vel (scenario_camera (Fin 0, Fin 0, Fin 1) zero3 True) = (Fin 0, Fin 0, Fin 1)
   \<and> camera_pos (update (scenario_camera (Fin 0, Fin 0, Fin 1) zero3 True) (Fin (5 / 100)))
       = (Fin 0, Fin 0, Fin (5 / 100))"
  using update_euler_step [of "scenario_camera (Fin 0, Fin 0, Fin 1) zero3 True" 0 0 0 0 0 1 "5 / 100"]
  by (simp add: scenario_fields)

subsection \<open>The points of a frame with camera-space output\<close>

lemma frame_points_loop_camera_space:
  assumes "find_in_camera_space self"
  shows "frame_points_loop self pairs =
           Inr (map (\<lambda>(new, old). calculate_camera_space_position_of_feature self new old) pairs)"
  using assms by (induction pairs) (auto simp: Let_def)

lemma get_frame_points_camera_space:
  assumes "find_in_camera_space self"
  shows "get_frame_points self (Some good_new) good_old =
           Inr (map (\<lambda>(new, old). calculate_camera_space_position_of_feature self new old)
                  (zip good_new good_old))"
  using assms by (simp add: get_frame_points_def frame_points_loop_camera_space)

lemma calcVanishingPoint_center:
  assumes "center self = (Fin cx, Fin cy)"
  shows "calcVanishingPoint self (Fin cx, Fin cy) = (NaN, NaN)"
  by (simp add: calcVanishingPoint_def assms vec2_sub_def vec2_div_def linalg_norm_def
      np_minus_def Let_def)

lemma weighted_disparity_center:
  assumes "center self = (Fin cx, Fin cy)"
  shows "weighted_disparity self (Fin cx, Fin cy) disparity = NaN"
proof -
  obtain v0 v1 v2 where vel: "camera_vel self = (v0, v1, v2)" by (cases "camera_vel self")
  obtain r0 r1 r2 where rvel: "camera_rvel self = (r0, r1, r2)" by (cases "camera_rvel self")
  show ?thesis
    by (simp add: weighted_disparity_def calcVanishingPoint_center [OF assms]
        distributeDisparity_def calcRotationalDisparities_def calcWeightedDisparity_def
        Let_def vel rvel)
qed

lemma position_center:
  assumes "center self = (Fin cx, Fin cy)"
  shows "calculate_camera_space_position_of_feature self new (Fin cx, Fin cy)
           = [NaN, NaN, NaN, fst new, snd new]"
  by (simp add: calculate_camera_space_position_of_feature_def calculate_distance_weighted
      weighted_disparity_center [OF assms] calcDistance_def Let_def)

subsection \<open>A feature at the frame center\<close>

text \<open>
  Claim C2 says that a feature whose previous pixel is the frame center fails with
  \<open>DegenerateRadialVector\<close> and is skipped. The code raises nothing: with center
  (320, 180), previous pixel (320, 180) and current pixel (321, 180), the frame's result
  holds the feature with a NaN position.
\<close>

theorem center_feature_counterexample:
  "get_frame_points (scenario_camera (Fin 0, Fin 0, Fin 1) zero3 True)
     (Some [(Fin 321, Fin 180)]) [(Fin 320, Fin 180)]
     = Inr [[NaN, NaN, NaN, Fin 321, Fin 180]]"
  using position_center [OF scenario_center, of "(Fin 0, Fin 0, Fin 1)" zero3 True "(Fin 321, Fin 180)"]
  by (simp add: get_frame_points_camera_space scenario_fields)

text \<open>
  Claim C2, amended. For every current pixel, if the previous pixel is the frame center,
  the radial vector is (NaN, NaN), no error is raised, and the feature resolves to the
  position (NaN, NaN, NaN) with the current pixel kept beside it; with camera-space output
  the frame's result holds that point at the feature's place.
\<close>

theorem center_feature_nan:
  assumes "center self = (Fin cx, Fin cy)"
  shows "calcVanishingPoint self (Fin cx, Fin cy) = (NaN, NaN)
       \<and> calculate_camera_space_position_of_feature self new (Fin cx, Fin cy)
           = [NaN, NaN, NaN, fst new, snd new]
       \<and> (find_in_camera_space self \<and> i < length good_new \<and> i < length good_old
            \<and> good_old ! i = (Fin cx, Fin cy) \<longrightarrow>
          (\<exists>points. get_frame_points self (Some good_new) good_old = Inr points
             \<and> length points = min (length good_new) (length good_old)
             \<and> points ! i = [NaN, NaN, NaN, fst (good_new ! i), snd (good_new ! i)]))"
proof -
  have "points ! i = [NaN, NaN, NaN, fst (good_new ! i), snd (good_new ! i)]"
    if "i < length good_new" "i < length good_old" "good_old ! i = (Fin cx, Fin cy)"
      and "points = map (\<lambda>(new, old). calculate_camera_space_position_of_feature self new old)
                  (zip good_new good_old)"
    for points
    using that position_center [OF assms, of "good_new ! i"] by simp
  then show ?thesis
    using calcVanishingPoint_center [OF assms] position_center [OF assms]
    by (auto simp: get_frame_points_camera_space)
qed

theorem center_feature_nan_witness:
  "center (scenario_camera (Fin 0, Fin 0, Fin 1) zero3 True) = (Fin 320, Fin 180)
   \<and> find_in_camera_space (scenario_camera (Fin 0, Fin 0, Fin 1) zero3 True)
   \<and> (1::nat) < length [(Fin 341, Fin 180), (Fin 300, Fin 200)]
   \<and> (1::nat) < length [(Fin 340, Fin 180), (Fin 320, Fin 180)]
   \<and> [(Fin 340, Fin 180), (Fin 320, Fin 180)] ! 1 = (Fin 320, Fin 180)
   \<and> (\<exists>points. get_frame_points (scenario_camera (Fin 0, Fin 0, Fin 1) zero3 True)
          (Some [(Fin 341, Fin 180), (Fin 300, Fin 200)]) [(Fin 340, Fin 180), (Fin 320, Fin 180)]
          = Inr points
        \<and> length points = 2
        \<and> points ! 1 = [NaN, NaN, NaN, Fin 300, Fin 200])"
  using center_feature_nan [OF scenario_center, of "(Fin 0, Fin 0, Fin 1)" zero3 True
      "(Fin 300, Fin 200)" 1 "[(Fin 341, Fin 180), (Fin 300, Fin 200)]"
      "[(Fin 340, Fin 180), (Fin 320, Fin 180)]"]
  by (auto simp add: scenario_fields center_init numeral_2_eq_2)


subsection \<open>World-space output\<close>

text \<open>
  Claim C7 says that with world-space output the emitted position is the camera-space
  position plus the camera's position, the source pixel unchanged. The code adds the
  camera's position, an array of shape (3,), to the whole array of shape (5,) that holds
  position and pixel: the addition raises \<open>ValueError\<close> and no point is emitted. Here for
  the scenario's feature, which resolves to a finite camera-space position.
\<close>

theorem world_space_value_error:
  "calculate_camera_space_position_of_feature (scenario_camera (Fin 0, Fin 0, Fin 1) zero3 False)
     (Fin 341, Fin 180) (Fin 340, Fin 180)
     = [Fin ((341 - 640 / 2) * (38199 / 10000) / (38199 / 1000 * 640) * 1000),
        Fin ((180 - 360 / 2) * (38199 / 10000) / (38199 / 1000 * 360) * 1000),
        Fin (38199 / 10000), Fin 341, Fin 180]
   \<and> get_frame_points (scenario_camera (Fin 0, Fin 0, Fin 1) zero3 False)
       (Some [(Fin 341, Fin 180)]) [(Fin 340, Fin 180)] = Inl ValueError"
proof -
  let ?self = "scenario_camera (Fin 0, Fin 0, Fin 1) zero3 False"
  have w: "weighted_disparity ?self (Fin 340, Fin 180) (Fin 1, Fin 0) = Fin 1"
    using weighted_disparity_radial [OF scenario_radial scenario_fields(1) scenario_fields(2),
        of 0 0 1 0 0 0 False 1 0]
    by simp
  have z: "calculate_distance_from_disparity ?self (Fin 340, Fin 180) (Fin 1, Fin 0)
             = Fin (38199 / 10000)"
    by (simp add: calculate_distance_weighted w calcDistance_def scenario_fields)
  have d: "vec2_sub (Fin 341, Fin 180) (Fin 340, Fin 180) = (Fin 1, Fin 0)"
    by (simp add: vec2_sub_def np_minus_def)
  have p: "calculate_camera_space_position_of_feature ?self (Fin 341, Fin 180) (Fin 340, Fin 180)
       = [Fin ((341 - 640 / 2) * (38199 / 10000) / (38199 / 1000 * 640) * 1000),
          Fin ((180 - 360 / 2) * (38199 / 10000) / (38199 / 1000 * 360) * 1000),
          Fin (38199 / 10000), Fin 341, Fin 180]"
    unfolding calculate_camera_space_position_of_feature_def d Let_def z scenario_fields
    by (simp add: of_py_int_def np_minus_def)
  have "get_frame_points ?self (Some [(Fin 341, Fin 180)]) [(Fin 340, Fin 180)] = Inl ValueError"
    unfolding get_frame_points_def
    by (simp add: p Let_def scenario_fields np_add_def vec3_array_def)
  with p show ?thesis by simp
qed

subsection \<open>A zero weighted disparity\<close>

text \<open>
  Claim C3 says that a zero weighted disparity makes the resolution fail with
  \<open>NonFiniteDepth\<close> and drops the feature. The code raises nothing: with both velocities
  zero, previous pixel (340, 180) and current pixel (341, 180), the frame's result holds
  the feature with an infinite depth.
\<close>

theorem zero_weight_counterexample:
  "get_frame_points (scenario_camera zero3 zero3 True)
     (Some [(Fin 341, Fin 180)]) [(Fin 340, Fin 180)]
     = Inr [[PInf, NaN, PInf, Fin 341, Fin 180]]"
proof -
  let ?self = "scenario_camera zero3 zero3 True"
  have w: "weighted_disparity ?self (Fin 340, Fin 180) (Fin 1, Fin 0) = Fin 0"
    using weighted_disparity_radial [OF scenario_radial scenario_fields(1) scenario_fields(2),
        of 0 0 0 0 0 0 True 1 0]
    by simp
  have z: "calculate_distance_from_disparity ?self (Fin 340, Fin 180) (Fin 1, Fin 0) = PInf"
    by (simp add: calculate_distance_weighted w calcDistance_def scenario_fields signed_inf_def)
  have d: "vec2_sub (Fin 341, Fin 180) (Fin 340, Fin 180) = (Fin 1, Fin 0)"
    by (simp add: vec2_sub_def np_minus_def)
  have p: "calculate_camera_space_position_of_feature ?self (Fin 341, Fin 180) (Fin 340, Fin 180)
       = [PInf, NaN, PInf, Fin 341, Fin 180]"
    unfolding calculate_camera_space_position_of_feature_def d Let_def z scenario_fields
    by (simp add: of_py_int_def np_minus_def signed_inf_def)
  show ?thesis
    by (simp add: get_frame_points_camera_space scenario_fields p)
qed

text \<open>
  Claim C3, amended. The depth is the focal length divided by (weighted disparity * 10).
  For a previous pixel off the center and a nonzero finite focal length: with both
  velocities (0, 0, 0) the weighted disparity of every finite disparity is 0; and whenever
  the weighted disparity is 0, no error is raised, the depth is an infinity, the resolved
  position carries it, and with camera-space output the frame's result holds the point.
\<close>

theorem zero_weight_infinite_depth:
  assumes c: "center self = (Fin cx, Fin cy)" and ne: "(ox, oy) \<noteq> (cx, cy)"
    and f: "focal_length self = Fin f" and fz: "f \<noteq> 0"
  shows "calculate_distance_from_disparity self (Fin ox, Fin oy) disparity
           = np_divide (focal_length self)
               (np_times (weighted_disparity self (Fin ox, Fin oy) disparity) (Fin 10))
       \<and> (camera_vel self = zero3 \<and> camera_rvel self = zero3 \<longrightarrow>
            weighted_disparity self (Fin ox, Fin oy) (Fin dx, Fin dy) = Fin 0)
       \<and> (weighted_disparity self (Fin ox, Fin oy) (vec2_sub new (Fin ox, Fin oy)) = Fin 0 \<longrightarrow>
            calculate_distance_from_disparity self (Fin ox, Fin oy) (vec2_sub new (Fin ox, Fin oy))
              \<in> {PInf, NInf}
          \<and> calculate_camera_space_position_of_feature self new (Fin ox, Fin oy) ! 2 \<in> {PInf, NInf}
          \<and> (find_in_camera_space self \<longrightarrow>
               get_frame_points self (Some [new]) [(Fin ox, Fin oy)]
                 = Inr [calculate_camera_space_position_of_feature self new (Fin ox, Fin oy)]))"
proof -
  obtain rx ry where r: "calcVanishingPoint self (Fin ox, Fin oy) = (Fin rx, Fin ry)"
    using c ne by (rule calcVanishingPoint_unit)
  have a: "calculate_distance_from_disparity self (Fin ox, Fin oy) disparity
           = np_divide (focal_length self)
               (np_times (weighted_disparity self (Fin ox, Fin oy) disparity) (Fin 10))"
    by (simp add: calculate_distance_weighted calcDistance_def)
  have b: "weighted_disparity self (Fin ox, Fin oy) (Fin dx, Fin dy) = Fin 0"
    if "camera_vel self = zero3" "camera_rvel self = zero3"
    using weighted_disparity_radial [OF r that] by simp
  have d: "calculate_distance_from_disparity self (Fin ox, Fin oy) (vec2_sub new (Fin ox, Fin oy))
              \<in> {PInf, NInf}"
    if "weighted_disparity self (Fin ox, Fin oy) (vec2_sub new (Fin ox, Fin oy)) = Fin 0"
    using that fz by (simp add: calculate_distance_weighted calcDistance_def f signed_inf_def)
  have e: "calculate_camera_space_position_of_feature self new (Fin ox, Fin oy) ! 2
             = calculate_distance_from_disparity self (Fin ox, Fin oy) (vec2_sub new (Fin ox, Fin oy))"
    by (simp add: calculate_camera_space_position_of_feature_def Let_def)
  show ?thesis
    using a b d e by (simp add: get_frame_points_camera_space)
qed

theorem zero_weight_infinite_depth_witness:
  "center (scenario_camera zero3 zero3 True) = (Fin 320, Fin 180)
   \<and> (340, 180) \<noteq> (320 :: real, 180 :: real)
   \<and> focal_length (scenario_camera zero3 zero3 True) = Fin (38199 / 1000)
   \<and> (38199 / 1000 :: real) \<noteq> 0
   \<and> camera_vel (scenario_camera zero3 zero3 True) = zero3
   \<and> camera_rvel (scenario_camera zero3 zero3 True) = zero3
   \<and> find_in_camera_space (scenario_camera zero3 zero3 True)
   \<and> weighted_disparity (scenario_camera zero3 zero3 True) (Fin 340, Fin 180) (Fin 1, Fin 0) = Fin 0
   \<and> calculate_distance_from_disparity (scenario_camera zero3 zero3 True)
        (Fin 340, Fin 180) (Fin 1, Fin 0) \<in> {PInf, NInf}
   \<and> get_frame_points (scenario_camera zero3 zero3 True)
        (Some [(Fin 341, Fin 180)]) [(Fin 340, Fin 180)]
       = Inr [calculate_camera_space_position_of_feature (scenario_camera zero3 zero3 True)
                (Fin 341, Fin 180) (Fin 340, Fin 180)]"
proof -
  have d: "vec2_sub (Fin 341, Fin 180) (Fin 340, Fin 180) = (Fin 1, Fin 0)"
    by (simp add: vec2_sub_def np_minus_def)
  have ne: "(340, 180) \<noteq> (320 :: real, 180 :: real)" by simp
  have fz: "(38199 / 1000 :: real) \<noteq> 0" by simp
  show ?thesis
    using zero_weight_infinite_depth [OF scenario_center ne scenario_fields(3) fz,
        of zero3 zero3 True "(Fin 1, Fin 0)" 1 0 "(Fin 341, Fin 180)"]
    unfolding d by (auto simp add: scenario_fields scenario_center)
qed

subsection \<open>Linearity of the weighted disparity\<close>

text \<open>
  Claim C8 says that the weighted disparity is linear in the camera velocity alone. It is
  the sum of a term in the velocity and a term in the angular velocity, so scaling the
  velocity alone does not scale it: with velocity (0, 0, 1), angular velocity (0, 1, 0),
  previous pixel (340, 180) and disparity (1, 0) it is 0, and 1 after the velocity is
  doubled, where twice 0 is 0.
\<close>

theorem velocity_homogeneity_counterexample:
  "weighted_disparity (scenario_camera (Fin 0, Fin 0, Fin 1) (Fin 0, Fin 1, Fin 0) True)
     (Fin 340, Fin 180) (Fin 1, Fin 0) = Fin 0
   \<and> weighted_disparity
       (set_camera_velocity (scenario_camera (Fin 0, Fin 0, Fin 1) (Fin 0, Fin 1, Fin 0) True)
          (vec3_scale (Fin 0, Fin 0, Fin 1) (Fin 2)))
       (Fin 340, Fin 180) (Fin 1, Fin 0) = Fin 1
   \<and> np_times (Fin 2)
         (weighted_disparity (scenario_camera (Fin 0, Fin 0, Fin 1) (Fin 0, Fin 1, Fin 0) True)
            (Fin 340, Fin 180) (Fin 1, Fin 0)) = Fin 0"
proof -
  let ?self = "scenario_camera (Fin 0, Fin 0, Fin 1) (Fin 0, Fin 1, Fin 0) True"
  have w: "weighted_disparity ?self (Fin 340, Fin 180) (Fin 1, Fin 0) = Fin 0"
    using weighted_disparity_radial [OF scenario_radial scenario_fields(1) scenario_fields(2),
        of 0 0 1 0 1 0 True 1 0]
    by simp
  have s: "set_camera_velocity ?self (vec3_scale (Fin 0, Fin 0, Fin 1) (Fin 2))
             = scenario_camera (Fin 0, Fin 0, Fin 2) (Fin 0, Fin 1, Fin 0) True"
    by (simp add: set_camera_velocity_def vec3_scale_def init_def)
  have w2: "weighted_disparity (scenario_camera (Fin 0, Fin 0, Fin 2) (Fin 0, Fin 1, Fin 0) True)
              (Fin 340, Fin 180) (Fin 1, Fin 0) = Fin 1"
    using weighted_disparity_radial [OF scenario_radial scenario_fields(1) scenario_fields(2),
        of 0 0 2 0 1 0 True 1 0]
    by simp
  show ?thesis
    unfolding s w w2 by simp
qed

text \<open>
  Claim C8, amended. For a previous pixel off the center and finite disparity and
  velocities, the weighted disparity of the feature is the dot product of (x, y, z) with
  the velocity plus the dot product of (pitch, yaw, roll) with the angular velocity, where
  x, y, z are the translational components and roll, yaw, pitch the rotational components
  that \<open>calculate_distance_from_disparity\<close> obtains for that pixel and disparity. It is
  additive and homogeneous in the disparity, and in the two velocities taken together.
  In the velocity alone it is additive exactly when the weighted disparity at zero velocity
  (the angular velocity's term) is 0, and homogeneous for a factor \<open>k\<close> exactly when
  \<open>k = 1\<close> or that term is 0; likewise in the angular velocity alone, with the weighted
  disparity at zero angular velocity.
\<close>

theorem weighted_disparity_linear:
  assumes c: "center self = (Fin cx, Fin cy)" and ne: "(ox, oy) \<noteq> (cx, cy)"
    and vel: "camera_vel self = (Fin v0, Fin v1, Fin v2)"
    and rvel: "camera_rvel self = (Fin r0, Fin r1, Fin r2)"
  shows "(\<exists>x y z roll yaw pitch.
            distributeDisparity (Fin dx, Fin dy) (calcVanishingPoint self (Fin ox, Fin oy))
              = (Fin x, Fin y, Fin z)
          \<and> rotational_disparities self (Fin ox, Fin oy) (Fin dx, Fin dy)
              = (Fin roll, Fin yaw, Fin pitch)
          \<and> weighted_disparity self (Fin ox, Fin oy) (Fin dx, Fin dy)
              = Fin ((x * v0 + y * v1 + z * v2) + (pitch * r0 + yaw * r1 + roll * r2)))
       \<and> weighted_disparity self (Fin ox, Fin oy) (Fin (dx + ex), Fin (dy + ey))
           = np_plus (weighted_disparity self (Fin ox, Fin oy) (Fin dx, Fin dy))
                     (weighted_disparity self (Fin ox, Fin oy) (Fin ex, Fin ey))
       \<and> weighted_disparity self (Fin ox, Fin oy) (Fin (k * dx), Fin (k * dy))
           = np_times (Fin k) (weighted_disparity self (Fin ox, Fin oy) (Fin dx, Fin dy))
       \<and> weighted_disparity
             (self\<lparr>camera_vel := (Fin (v0 + u0), Fin (v1 + u1), Fin (v2 + u2)),
                    camera_rvel := (Fin (r0 + s0), Fin (r1 + s1), Fin (r2 + s2))\<rparr>)
             (Fin ox, Fin oy) (Fin dx, Fin dy)
           = np_plus (weighted_disparity self (Fin ox, Fin oy) (Fin dx, Fin dy))
               (weighted_disparity
                  (self\<lparr>camera_vel := (Fin u0, Fin u1, Fin u2),
                         camera_rvel := (Fin s0, Fin s1, Fin s2)\<rparr>)
                  (Fin ox, Fin oy) (Fin dx, Fin dy))
       \<and> weighted_disparity
             (self\<lparr>camera_vel := (Fin (k * v0), Fin (k * v1), Fin (k * v2)),
                    camera_rvel := (Fin (k * r0), Fin (k * r1), Fin (k * r2))\<rparr>)
             (Fin ox, Fin oy) (Fin dx, Fin dy)
           = np_times (Fin k) (weighted_disparity self (Fin ox, Fin oy) (Fin dx, Fin dy))
       \<and> (weighted_disparity
             (self\<lparr>camera_vel := (Fin (v0 + u0), Fin (v1 + u1), Fin (v2 + u2))\<rparr>)
             (Fin ox, Fin oy) (Fin dx, Fin dy)
           = np_plus (weighted_disparity self (Fin ox, Fin oy) (Fin dx, Fin dy))
               (weighted_disparity (self\<lparr>camera_vel := (Fin u0, Fin u1, Fin u2)\<rparr>)
                  (Fin ox, Fin oy) (Fin dx, Fin dy))
          \<longleftrightarrow> weighted_disparity (self\<lparr>camera_vel := zero3\<rparr>)
                 (Fin ox, Fin oy) (Fin dx, Fin dy) = Fin 0)
       \<and> (weighted_disparity
             (self\<lparr>camera_vel := (Fin (k * v0), Fin (k * v1), Fin (k * v2))\<rparr>)
             (Fin ox, Fin oy) (Fin dx, Fin dy)
           = np_times (Fin k) (weighted_disparity self (Fin ox, Fin oy) (Fin dx, Fin dy))
          \<longleftrightarrow> k = 1 \<or> weighted_disparity (self\<lparr>camera_vel := zero3\<rparr>)
                 (Fin ox, Fin oy) (Fin dx, Fin dy) = Fin 0)
       \<and> (weighted_disparity
             (self\<lparr>camera_rvel := (Fin (r0 + s0), Fin (r1 + s1), Fin (r2 + s2))\<rparr>)
             (Fin ox, Fin oy) (Fin dx, Fin dy)
           = np_plus (weighted_disparity self (Fin ox, Fin oy) (Fin dx, Fin dy))
               (weighted_disparity (self\<lparr>camera_rvel := (Fin s0, Fin s1, Fin s2)\<rparr>)
                  (Fin ox, Fin oy) (Fin dx, Fin dy))
          \<longleftrightarrow> weighted_disparity (self\<lparr>camera_rvel := zero3\<rparr>)
                 (Fin ox, Fin oy) (Fin dx, Fin dy) = Fin 0)
       \<and> (weighted_disparity
             (self\<lparr>camera_rvel := (Fin (k * r0), Fin (k * r1), Fin (k * r2))\<rparr>)
             (Fin ox, Fin oy) (Fin dx, Fin dy)
           = np_times (Fin k) (weighted_disparity self (Fin ox, Fin oy) (Fin dx, Fin dy))
          \<longleftrightarrow> k = 1 \<or> weighted_disparity (self\<lparr>camera_rvel := zero3\<rparr>)
                 (Fin ox, Fin oy) (Fin dx, Fin dy) = Fin 0)"
proof -
  let ?o = "(Fin ox, Fin oy)" and ?d = "(Fin dx, Fin dy)"
  obtain rx ry where r: "calcVanishingPoint self ?o = (Fin rx, Fin ry)"
    using c ne by (rule calcVanishingPoint_unit)
  have rv: "calcVanishingPoint (self\<lparr>camera_vel := a\<rparr>) ?o = (Fin rx, Fin ry)" for a
    using r by (simp add: calcVanishingPoint_def)
  have rr: "calcVanishingPoint (self\<lparr>camera_rvel := b\<rparr>) ?o = (Fin rx, Fin ry)" for b
    using r by (simp add: calcVanishingPoint_def)
  have rb: "calcVanishingPoint (self\<lparr>camera_vel := a, camera_rvel := b\<rparr>) ?o = (Fin rx, Fin ry)"
    for a b
    using r by (simp add: calcVanishingPoint_def)
  define z where "z = rx * (- dx) + ry * (- dy)"
  define roll where "roll = ry * (- dx) + (- rx) * z"
  define A where "A a0 a1 a2 = (- dx) * a0 + (- dy) * a1 + z * a2" for a0 a1 a2 :: real
  define B where "B b0 b1 b2 = z * b0 + (- dx) * b1 + roll * b2" for b0 b1 b2 :: real
  have W: "weighted_disparity s ?o ?d = Fin (A a0 a1 a2 + B b0 b1 b2)"
    if "calcVanishingPoint s ?o = (Fin rx, Fin ry)"
      "camera_vel s = (Fin a0, Fin a1, Fin a2)" "camera_rvel s = (Fin b0, Fin b1, Fin b2)"
    for s a0 a1 a2 b0 b1 b2
    unfolding weighted_disparity_radial [OF that] A_def B_def roll_def z_def by simp
  have Aadd: "A (a0 + c0) (a1 + c1) (a2 + c2) = A a0 a1 a2 + A c0 c1 c2" for a0 a1 a2 c0 c1 c2
    by (simp add: A_def algebra_simps)
  have Amul: "A (k * a0) (k * a1) (k * a2) = k * A a0 a1 a2" for k a0 a1 a2
    by (simp add: A_def algebra_simps)
  have Badd: "B (b0 + c0) (b1 + c1) (b2 + c2) = B b0 b1 b2 + B c0 c1 c2" for b0 b1 b2 c0 c1 c2
    by (simp add: B_def algebra_simps)
  have Bmul: "B (k * b0) (k * b1) (k * b2) = k * B b0 b1 b2" for k b0 b1 b2
    by (simp add: B_def algebra_simps)
  have A0: "A 0 0 0 = 0" by (simp add: A_def)
  have B0: "B 0 0 0 = 0" by (simp add: B_def)
  have Ws: "weighted_disparity self ?o ?d = Fin (A v0 v1 v2 + B r0 r1 r2)"
    using r vel rvel by (rule W)
  have Wv: "weighted_disparity (self\<lparr>camera_vel := (Fin a0, Fin a1, Fin a2)\<rparr>) ?o ?d
              = Fin (A a0 a1 a2 + B r0 r1 r2)" for a0 a1 a2
    by (rule W [OF rv]) (simp_all add: rvel)
  have Wr: "weighted_disparity (self\<lparr>camera_rvel := (Fin b0, Fin b1, Fin b2)\<rparr>) ?o ?d
              = Fin (A v0 v1 v2 + B b0 b1 b2)" for b0 b1 b2
    by (rule W [OF rr]) (simp_all add: vel)
  have Wb: "weighted_disparity
              (self\<lparr>camera_vel := (Fin a0, Fin a1, Fin a2),
                     camera_rvel := (Fin b0, Fin b1, Fin b2)\<rparr>) ?o ?d
              = Fin (A a0 a1 a2 + B b0 b1 b2)" for a0 a1 a2 b0 b1 b2
    by (rule W [OF rb]) simp_all
  have 1: "\<exists>x y z roll yaw pitch.
            distributeDisparity ?d (calcVanishingPoint self ?o) = (Fin x, Fin y, Fin z)
          \<and> rotational_disparities self ?o ?d = (Fin roll, Fin yaw, Fin pitch)
          \<and> weighted_disparity self ?o ?d
              = Fin ((x * v0 + y * v1 + z * v2) + (pitch * r0 + yaw * r1 + roll * r2))"
    using r vel rvel by (rule weighted_disparity_components)
  have 2: "weighted_disparity self ?o (Fin (dx + ex), Fin (dy + ey))
           = np_plus (weighted_disparity self ?o ?d) (weighted_disparity self ?o (Fin ex, Fin ey))"
    using r vel rvel by (rule weighted_disparity_additive)
  have 3: "weighted_disparity self ?o (Fin (k * dx), Fin (k * dy))
           = np_times (Fin k) (weighted_disparity self ?o ?d)"
    using r vel rvel by (rule weighted_disparity_homogeneous)
  have 4: "weighted_disparity
             (self\<lparr>camera_vel := (Fin (v0 + u0), Fin (v1 + u1), Fin (v2 + u2)),
                    camera_rvel := (Fin (r0 + s0), Fin (r1 + s1), Fin (r2 + s2))\<rparr>) ?o ?d
           = np_plus (weighted_disparity self ?o ?d)
               (weighted_disparity
                  (self\<lparr>camera_vel := (Fin u0, Fin u1, Fin u2),
                         camera_rvel := (Fin s0, Fin s1, Fin s2)\<rparr>) ?o ?d)"
    by (simp add: Ws Wb Aadd Badd)
  have 5: "weighted_disparity
             (self\<lparr>camera_vel := (Fin (k * v0), Fin (k * v1), Fin (k * v2)),
                    camera_rvel := (Fin (k * r0), Fin (k * r1), Fin (k * r2))\<rparr>) ?o ?d
           = np_times (Fin k) (weighted_disparity self ?o ?d)"
    by (simp add: Ws Wb Amul Bmul algebra_simps)
  have 6: "weighted_disparity
             (self\<lparr>camera_vel := (Fin (v0 + u0), Fin (v1 + u1), Fin (v2 + u2))\<rparr>) ?o ?d
           = np_plus (weighted_disparity self ?o ?d)
               (weighted_disparity (self\<lparr>camera_vel := (Fin u0, Fin u1, Fin u2)\<rparr>) ?o ?d)
          \<longleftrightarrow> weighted_disparity (self\<lparr>camera_vel := zero3\<rparr>) ?o ?d = Fin 0"
    by (simp add: Ws Wv Aadd A0)
  have 7: "weighted_disparity
             (self\<lparr>camera_vel := (Fin (k * v0), Fin (k * v1), Fin (k * v2))\<rparr>) ?o ?d
           = np_times (Fin k) (weighted_disparity self ?o ?d)
          \<longleftrightarrow> k = 1 \<or> weighted_disparity (self\<lparr>camera_vel := zero3\<rparr>) ?o ?d = Fin 0"
    by (simp add: Ws Wv Amul A0 scale_fixed_iff)
  have 8: "weighted_disparity
             (self\<lparr>camera_rvel := (Fin (r0 + s0), Fin (r1 + s1), Fin (r2 + s2))\<rparr>) ?o ?d
           = np_plus (weighted_disparity self ?o ?d)
               (weighted_disparity (self\<lparr>camera_rvel := (Fin s0, Fin s1, Fin s2)\<rparr>) ?o ?d)
          \<longleftrightarrow> weighted_disparity (self\<lparr>camera_rvel := zero3\<rparr>) ?o ?d = Fin 0"
    by (simp add: Ws Wr Badd B0)
  have 9: "weighted_disparity
             (self\<lparr>camera_rvel := (Fin (k * r0), Fin (k * r1), Fin (k * r2))\<rparr>) ?o ?d
           = np_times (Fin k) (weighted_disparity self ?o ?d)
          \<longleftrightarrow> k = 1 \<or> weighted_disparity (self\<lparr>camera_rvel := zero3\<rparr>) ?o ?d = Fin 0"
    by (simp add: Ws Wr Bmul B0 scale_fixed_iff')
  show ?thesis
    by (intro conjI) (fact 1 2 3 4 5 6 7 8 9)+
qed

theorem weighted_disparity_linear_witness:
  "center (scenario_camera (Fin 0, Fin 0, Fin 1) (Fin 0, Fin 1, Fin 0) True) = (Fin 320, Fin 180)
   \<and> (340, 180) \<noteq> (320 :: real, 180 :: real)
   \<and> camera_vel (scenario_camera (Fin 0, Fin 0, Fin 1) (Fin 0, Fin 1, Fin 0) True)
       = (Fin 0, Fin 0, Fin 1)
   \<and> camera_rvel (scenario_camera (Fin 0, Fin 0, Fin 1) (Fin 0, Fin 1, Fin 0) True)
       = (Fin 0, Fin 1, Fin 0)
   \<and> distributeDisparity (Fin 1, Fin 2)
        (calcVanishingPoint (scenario_camera (Fin 0, Fin 0, Fin 1) (Fin 0, Fin 1, Fin 0) True)
           (Fin 340, Fin 180)) = (Fin (- 1), Fin (- 2), Fin 1)
   \<and> weighted_disparity (scenario_camera (Fin 0, Fin 0, Fin 1) (Fin 0, Fin 1, Fin 0) True)
        (Fin 340, Fin 180) (Fin 1, Fin 2) = Fin 0
   \<and> weighted_disparity (scenario_camera (Fin 0, Fin 0, Fin 1) (Fin 0, Fin 1, Fin 0) True)
        (Fin 340, Fin 180) (Fin 3, Fin 5)
       = np_plus
           (weighted_disparity (scenario_camera (Fin 0, Fin 0, Fin 1) (Fin 0, Fin 1, Fin 0) True)
              (Fin 340, Fin 180) (Fin 1, Fin 2))
           (weighted_disparity (scenario_camera (Fin 0, Fin 0, Fin 1) (Fin 0, Fin 1, Fin 0) True)
              (Fin 340, Fin 180) (Fin 2, Fin 3))
   \<and> weighted_disparity (scenario_camera (Fin 0, Fin 0, Fin 1) (Fin 0, Fin 1, Fin 0) True)
        (Fin 340, Fin 180) (Fin 4, Fin 8)
       = np_times (Fin 4)
           (weighted_disparity (scenario_camera (Fin 0, Fin 0, Fin 1) (Fin 0, Fin 1, Fin 0) True)
              (Fin 340, Fin 180) (Fin 1, Fin 2))
   \<and> weighted_disparity
        ((scenario_camera (Fin 0, Fin 0, Fin 1) (Fin 0, Fin 1, Fin 0) True)
           \<lparr>camera_vel := (Fin 0, Fin 0, Fin 4), camera_rvel := (Fin 0, Fin 4, Fin 0)\<rparr>)
        (Fin 340, Fin 180) (Fin 1, Fin 2)
       = np_times (Fin 4)
           (weighted_disparity (scenario_camera (Fin 0, Fin 0, Fin 1) (Fin 0, Fin 1, Fin 0) True)
              (Fin 340, Fin 180) (Fin 1, Fin 2))
   \<and> weighted_disparity
        ((scenario_camera (Fin 0, Fin 0, Fin 1) (Fin 0, Fin 1, Fin 0) True)
           \<lparr>camera_vel := zero3\<rparr>)
        (Fin 340, Fin 180) (Fin 1, Fin 2) = Fin (- 1)
   \<and> weighted_disparity
        ((scenario_camera (Fin 0, Fin 0, Fin 1) (Fin 0, Fin 1, Fin 0) True)
           \<lparr>camera_vel := (Fin 0, Fin 0, Fin 4)\<rparr>)
        (Fin 340, Fin 180) (Fin 1, Fin 2)
       \<noteq> np_times (Fin 4)
           (weighted_disparity (scenario_camera (Fin 0, Fin 0, Fin 1) (Fin 0, Fin 1, Fin 0) True)
              (Fin 340, Fin 180) (Fin 1, Fin 2))
   \<and> camera_rvel (scenario_camera (Fin 0, Fin 0, Fin 1) zero3 True) = zero3
   \<and> weighted_disparity
        ((scenario_camera (Fin 0, Fin 0, Fin 1) zero3 True)\<lparr>camera_vel := zero3\<rparr>)
        (Fin 340, Fin 180) (Fin 1, Fin 2) = Fin 0
   \<and> weighted_disparity
        ((scenario_camera (Fin 0, Fin 0, Fin 1) zero3 True)
           \<lparr>camera_vel := (Fin 0, Fin 0, Fin 4)\<rparr>)
        (Fin 340, Fin 180) (Fin 1, Fin 2)
       = np_times (Fin 4)
           (weighted_disparity (scenario_camera (Fin 0, Fin 0, Fin 1) zero3 True)
              (Fin 340, Fin 180) (Fin 1, Fin 2))"
proof -
  let ?self = "scenario_camera (Fin 0, Fin 0, Fin 1) (Fin 0, Fin 1, Fin 0) True"
  let ?still = "scenario_camera (Fin 0, Fin 0, Fin 1) zero3 True"
  let ?o = "(Fin 340, Fin 180)" and ?d = "(Fin 1, Fin 2)"
  have c: "center ?self = (Fin 320, Fin 180)" by (rule scenario_center)
  have ne: "(340, 180) \<noteq> (320 :: real, 180 :: real)" by simp
  have vel: "camera_vel ?self = (Fin 0, Fin 0, Fin 1)" by (rule scenario_fields)
  have rvel: "camera_rvel ?self = (Fin 0, Fin 1, Fin 0)" by (rule scenario_fields)
  have c': "center ?still = (Fin 320, Fin 180)" by (rule scenario_center)
  have vel': "camera_vel ?still = (Fin 0, Fin 0, Fin 1)" by (rule scenario_fields)
  have rvel': "camera_rvel ?still = zero3" by (rule scenario_fields)
  note moving = weighted_disparity_linear [OF c ne vel rvel,
      where dx = 1 and dy = 2 and ex = 2 and ey = 3 and k = 4]
  note still = weighted_disparity_linear [OF c' ne vel' rvel',
      where dx = 1 and dy = 2 and k = 4]
  have t: "distributeDisparity ?d (calcVanishingPoint ?self ?o) = (Fin (- 1), Fin (- 2), Fin 1)"
    by (simp add: scenario_radial distributeDisparity_def)
  from moving obtain x y z roll yaw pitch
    where "distributeDisparity ?d (calcVanishingPoint ?self ?o) = (Fin x, Fin y, Fin z)"
      and q: "rotational_disparities ?self ?o ?d = (Fin roll, Fin yaw, Fin pitch)"
      and w: "weighted_disparity ?self ?o ?d
                = Fin ((x * 0 + y * 0 + z * 1) + (pitch * 0 + yaw * 1 + roll * 0))"
    by blast
  with t have xyz: "x = - 1" "y = - 2" "z = 1" by simp_all
  have "rotational_disparities ?self ?o ?d = (Fin 1, Fin (- 1), Fin 1)"
    by (simp add: rotational_disparities_def scenario_radial distributeDisparity_def
        calcRotationalDisparities_def Let_def)
  with q have "yaw = - 1" by simp
  with w xyz have w0: "weighted_disparity ?self ?o ?d = Fin 0" by simp
  have add: "weighted_disparity ?self ?o (Fin (1 + 2), Fin (2 + 3))
       = np_plus (weighted_disparity ?self ?o ?d) (weighted_disparity ?self ?o (Fin 2, Fin 3))"
    and hom: "weighted_disparity ?self ?o (Fin (4 * 1), Fin (4 * 2))
       = np_times (Fin 4) (weighted_disparity ?self ?o ?d)"
    and joint: "weighted_disparity
        (?self\<lparr>camera_vel := (Fin (4 * 0), Fin (4 * 0), Fin (4 * 1)),
                camera_rvel := (Fin (4 * 0), Fin (4 * 1), Fin (4 * 0))\<rparr>) ?o ?d
       = np_times (Fin 4) (weighted_disparity ?self ?o ?d)"
    and alone: "weighted_disparity
        (?self\<lparr>camera_vel := (Fin (4 * 0), Fin (4 * 0), Fin (4 * 1))\<rparr>) ?o ?d
       = np_times (Fin 4) (weighted_disparity ?self ?o ?d)
       \<longleftrightarrow> (4 :: real) = 1 \<or> weighted_disparity (?self\<lparr>camera_vel := zero3\<rparr>) ?o ?d = Fin 0"
    using moving by blast+
  have alone': "weighted_disparity
        (?still\<lparr>camera_vel := (Fin (4 * 0), Fin (4 * 0), Fin (4 * 1))\<rparr>) ?o ?d
       = np_times (Fin 4) (weighted_disparity ?still ?o ?d)
       \<longleftrightarrow> (4 :: real) = 1 \<or> weighted_disparity (?still\<lparr>camera_vel := zero3\<rparr>) ?o ?d = Fin 0"
    using still by blast
  have z1: "weighted_disparity (?self\<lparr>camera_vel := zero3\<rparr>) ?o ?d = Fin (- 1)"
    by (simp add: scenario_update scenario_weight)
  have z2: "weighted_disparity (?still\<lparr>camera_vel := zero3\<rparr>) ?o ?d = Fin 0"
    by (simp add: scenario_update scenario_weight)
  have n1: "weighted_disparity (?self\<lparr>camera_vel := (Fin 0, Fin 0, Fin 4)\<rparr>) ?o ?d
       \<noteq> np_times (Fin 4) (weighted_disparity ?self ?o ?d)"
    using alone z1 by simp
  have p1: "weighted_disparity (?still\<lparr>camera_vel := (Fin 0, Fin 0, Fin 4)\<rparr>) ?o ?d
       = np_times (Fin 4) (weighted_disparity ?still ?o ?d)"
    using alone' z2 by simp
  from add have add': "weighted_disparity ?self ?o (Fin 3, Fin 5)
       = np_plus (weighted_disparity ?self ?o ?d) (weighted_disparity ?self ?o (Fin 2, Fin 3))"
    by simp
  from hom have hom': "weighted_disparity ?self ?o (Fin 4, Fin 8)
       = np_times (Fin 4) (weighted_disparity ?self ?o ?d)"
    by simp
  from joint have joint': "weighted_disparity
        (?self\<lparr>camera_vel := (Fin 0, Fin 0, Fin 4), camera_rvel := (Fin 0, Fin 4, Fin 0)\<rparr>) ?o ?d
       = np_times (Fin 4) (weighted_disparity ?self ?o ?d)"
    by simp
  show ?thesis
    by (intro conjI) (fact c ne vel rvel t w0 add' hom' joint' z1 n1 rvel' z2 p1)+
qed

subsection \<open>Depth for a nonzero weighted disparity\<close>

text \<open>
  Claim C9. For a previous pixel off the center, finite pixels and velocities and a
  positive focal length \<open>f\<close>, the weighted disparity is a finite \<open>w\<close>; when \<open>w\<close> is not 0
  the depth is the finite \<open>f / (w * 10)\<close>, of the sign of \<open>w\<close>, the feature resolves to a
  position with that depth and the current pixel, without error, also when the depth is
  negative, and with camera-space output the frame's result holds it.
\<close>

theorem nonzero_weight_depth:
  assumes c: "center self = (Fin cx, Fin cy)" and ne: "(ox, oy) \<noteq> (cx, cy)"
    and vel: "camera_vel self = (Fin v0, Fin v1, Fin v2)"
    and rvel: "camera_rvel self = (Fin r0, Fin r1, Fin r2)"
    and f: "focal_length self = Fin f" and fpos: "0 < f"
  shows "\<exists>w. weighted_disparity self (Fin ox, Fin oy) (vec2_sub (Fin nx, Fin ny) (Fin ox, Fin oy))
               = Fin w
          \<and> (w \<noteq> 0 \<longrightarrow>
               calculate_distance_from_disparity self (Fin ox, Fin oy)
                   (vec2_sub (Fin nx, Fin ny) (Fin ox, Fin oy)) = Fin (f / (w * 10))
               \<and> sgn (f / (w * 10)) = sgn w
               \<and> (\<exists>x y. calculate_camera_space_position_of_feature self (Fin nx, Fin ny) (Fin ox, Fin oy)
                     = [x, y, Fin (f / (w * 10)), Fin nx, Fin ny])
               \<and> (find_in_camera_space self \<longrightarrow>
                    (\<exists>x y. get_frame_points self (Some [(Fin nx, Fin ny)]) [(Fin ox, Fin oy)]
                       = Inr [[x, y, Fin (f / (w * 10)), Fin nx, Fin ny]])))"
proof -
  obtain rx ry where r: "calcVanishingPoint self (Fin ox, Fin oy) = (Fin rx, Fin ry)"
    using c ne by (rule calcVanishingPoint_unit)
  have d: "vec2_sub (Fin nx, Fin ny) (Fin ox, Fin oy) = (Fin (nx - ox), Fin (ny - oy))"
    by (simp add: vec2_sub_def np_minus_def)
  obtain w where w: "weighted_disparity self (Fin ox, Fin oy) (Fin (nx - ox), Fin (ny - oy)) = Fin w"
    using weighted_disparity_radial [OF r vel rvel] by blast
  have z: "calculate_distance_from_disparity self (Fin ox, Fin oy) (Fin (nx - ox), Fin (ny - oy))
             = Fin (f / (w * 10))" if "w \<noteq> 0"
    using that by (simp add: calculate_distance_weighted w calcDistance_def f)
  have s: "sgn (f / (w * 10)) = sgn w" if "w \<noteq> 0"
    using fpos that by (simp add: sgn_divide sgn_mult)
  have p: "\<exists>x y. calculate_camera_space_position_of_feature self (Fin nx, Fin ny) (Fin ox, Fin oy)
             = [x, y, Fin (f / (w * 10)), Fin nx, Fin ny]" if "w \<noteq> 0"
    unfolding calculate_camera_space_position_of_feature_def Let_def d z [OF that]
    by simp
  have g: "\<exists>x y. get_frame_points self (Some [(Fin nx, Fin ny)]) [(Fin ox, Fin oy)]
             = Inr [[x, y, Fin (f / (w * 10)), Fin nx, Fin ny]]"
    if "w \<noteq> 0" "find_in_camera_space self"
    using p [OF that(1)] by (auto simp: get_frame_points_camera_space [OF that(2)])
  show ?thesis
    unfolding d using w z s p g by blast
qed

theorem nonzero_weight_depth_witness:
  "center (scenario_camera (Fin 0, Fin 0, Fin 1) zero3 True) = (Fin 320, Fin 180)
   \<and> (340, 180) \<noteq> (320 :: real, 180 :: real)
   \<and> camera_vel (scenario_camera (Fin 0, Fin 0, Fin 1) zero3 True) = (Fin 0, Fin 0, Fin 1)
   \<and> camera_rvel (scenario_camera (Fin 0, Fin 0, Fin 1) zero3 True) = zero3
   \<and> focal_length (scenario_camera (Fin 0, Fin 0, Fin 1) zero3 True) = Fin (38199 / 1000)
   \<and> (0 :: real) < 38199 / 1000
   \<and> find_in_camera_space (scenario_camera (Fin 0, Fin 0, Fin 1) zero3 True)
   \<and> weighted_disparity (scenario_camera (Fin 0, Fin 0, Fin 1) zero3 True) (Fin 340, Fin 180)
        (vec2_sub (Fin 339, Fin 180) (Fin 340, Fin 180)) = Fin (- 1)
   \<and> calculate_distance_from_disparity (scenario_camera (Fin 0, Fin 0, Fin 1) zero3 True)
        (Fin 340, Fin 180) (vec2_sub (Fin 339, Fin 180) (Fin 340, Fin 180))
       = Fin (- (38199 / 10000))
   \<and> (\<exists>x y. get_frame_points (scenario_camera (Fin 0, Fin 0, Fin 1) zero3 True)
          (Some [(Fin 339, Fin 180)]) [(Fin 340, Fin 180)]
        = Inr [[x, y, Fin (- (38199 / 10000)), Fin 339, Fin 180]])"
proof -
  let ?self = "scenario_camera (Fin 0, Fin 0, Fin 1) zero3 True"
  have ne: "(340, 180) \<noteq> (320 :: real, 180 :: real)" by simp
  have fpos: "(0 :: real) < 38199 / 1000" by simp
  have d: "vec2_sub (Fin 339, Fin 180) (Fin 340, Fin 180) = (Fin (- 1), Fin 0)"
    by (simp add: vec2_sub_def np_minus_def)
  have w: "weighted_disparity ?self (Fin 340, Fin 180) (Fin (- 1), Fin 0) = Fin (- 1)"
    using weighted_disparity_radial [OF scenario_radial scenario_fields(1) scenario_fields(2),
        of 0 0 1 0 0 0 True "- 1" 0]
    by simp
  show ?thesis
    using nonzero_weight_depth [OF scenario_center ne scenario_fields(1) scenario_fields(2)
        scenario_fields(3) fpos, of 0 0 1 0 0 0 True 339 180]
    unfolding d w by (auto simp add: scenario_fields scenario_center)
qed

subsection \<open>Scaling the disparity\<close>

text \<open>
  Claim C10. For a previous pixel off the center, finite velocities and focal length and
  a scalar \<open>k\<close> other than 0, scaling the disparity by \<open>k\<close> scales the weighted disparity by
  \<open>k\<close>; when the weighted disparity is not 0, it divides the distance by \<open>k\<close>, and negating
  the disparity negates the distance.
\<close>

theorem disparity_scaling:
  assumes c: "center self = (Fin cx, Fin cy)" and ne: "(ox, oy) \<noteq> (cx, cy)"
    and vel: "camera_vel self = (Fin v0, Fin v1, Fin v2)"
    and rvel: "camera_rvel self = (Fin r0, Fin r1, Fin r2)"
    and f: "focal_length self = Fin f" and k: "k \<noteq> 0"
  shows "weighted_disparity self (Fin ox, Fin oy) (Fin (k * dx), Fin (k * dy))
           = np_times (Fin k) (weighted_disparity self (Fin ox, Fin oy) (Fin dx, Fin dy))
       \<and> (weighted_disparity self (Fin ox, Fin oy) (Fin dx, Fin dy) \<noteq> Fin 0 \<longrightarrow>
            calculate_distance_from_disparity self (Fin ox, Fin oy) (Fin (k * dx), Fin (k * dy))
              = np_divide (calculate_distance_from_disparity self (Fin ox, Fin oy) (Fin dx, Fin dy))
                  (Fin k)
          \<and> calculate_distance_from_disparity self (Fin ox, Fin oy) (Fin (- dx), Fin (- dy))
              = np_neg (calculate_distance_from_disparity self (Fin ox, Fin oy) (Fin dx, Fin dy)))"
proof -
  obtain rx ry where r: "calcVanishingPoint self (Fin ox, Fin oy) = (Fin rx, Fin ry)"
    using c ne by (rule calcVanishingPoint_unit)
  obtain w where w: "weighted_disparity self (Fin ox, Fin oy) (Fin dx, Fin dy) = Fin w"
    using weighted_disparity_radial [OF r vel rvel] by blast
  have wk: "weighted_disparity self (Fin ox, Fin oy) (Fin (k * dx), Fin (k * dy)) = Fin (k * w)"
    by (simp add: weighted_disparity_homogeneous [OF r vel rvel] w)
  have wn: "weighted_disparity self (Fin ox, Fin oy) (Fin (- dx), Fin (- dy)) = Fin (- w)"
    using weighted_disparity_homogeneous [OF r vel rvel, of "- 1" dx dy] by (simp add: w)
  have 1: "weighted_disparity self (Fin ox, Fin oy) (Fin (k * dx), Fin (k * dy))
           = np_times (Fin k) (weighted_disparity self (Fin ox, Fin oy) (Fin dx, Fin dy))"
    by (simp add: w wk)
  have 2: "calculate_distance_from_disparity self (Fin ox, Fin oy) (Fin (k * dx), Fin (k * dy))
              = np_divide (calculate_distance_from_disparity self (Fin ox, Fin oy) (Fin dx, Fin dy))
                  (Fin k)" if "w \<noteq> 0"
    using that k by (simp add: calculate_distance_weighted calcDistance_def f w wk)
  have 3: "calculate_distance_from_disparity self (Fin ox, Fin oy) (Fin (- dx), Fin (- dy))
              = np_neg (calculate_distance_from_disparity self (Fin ox, Fin oy) (Fin dx, Fin dy))"
    if "w \<noteq> 0"
    using that by (simp add: calculate_distance_weighted calcDistance_def f w wn)
  show ?thesis
    using 1 2 3 w by simp
qed

theorem disparity_scaling_witness:
  "center (scenario_camera (Fin 0, Fin 0, Fin 1) zero3 True) = (Fin 320, Fin 180)
   \<and> (340, 180) \<noteq> (320 :: real, 180 :: real)
   \<and> camera_vel (scenario_camera (Fin 0, Fin 0, Fin 1) zero3 True) = (Fin 0, Fin 0, Fin 1)
   \<and> camera_rvel (scenario_camera (Fin 0, Fin 0, Fin 1) zero3 True) = zero3
   \<and> focal_length (scenario_camera (Fin 0, Fin 0, Fin 1) zero3 True) = Fin (38199 / 1000)
   \<and> (2 :: real) \<noteq> 0
   \<and> weighted_disparity (scenario_camera (Fin 0, Fin 0, Fin 1) zero3 True)
        (Fin 340, Fin 180) (Fin 1, Fin 0) \<noteq> Fin 0
   \<and> calculate_distance_from_disparity (scenario_camera (Fin 0, Fin 0, Fin 1) zero3 True)
        (Fin 340, Fin 180) (Fin 2, Fin 0)
       = np_divide (calculate_distance_from_disparity (scenario_camera (Fin 0, Fin 0, Fin 1) zero3 True)
                      (Fin 340, Fin 180) (Fin 1, Fin 0)) (Fin 2)
   \<and> calculate_distance_from_disparity (scenario_camera (Fin 0, Fin 0, Fin 1) zero3 True)
        (Fin 340, Fin 180) (Fin (- 1), Fin 0)
       = np_neg (calculate_distance_from_disparity (scenario_camera (Fin 0, Fin 0, Fin 1) zero3 True)
                   (Fin 340, Fin 180) (Fin 1, Fin 0))"
proof -
  let ?self = "scenario_camera (Fin 0, Fin 0, Fin 1) zero3 True"
  have ne: "(340, 180) \<noteq> (320 :: real, 180 :: real)" by simp
  have k: "(2 :: real) \<noteq> 0" by simp
  have w: "weighted_disparity ?self (Fin 340, Fin 180) (Fin 1, Fin 0) = Fin 1"
    using weighted_disparity_radial [OF scenario_radial scenario_fields(1) scenario_fields(2),
        of 0 0 1 0 0 0 True 1 0]
    by simp
  show ?thesis
    using disparity_scaling [OF scenario_center ne scenario_fields(1) scenario_fields(2)
        scenario_fields(3) k, of 0 0 1 0 0 0 True 1 0]
    by (simp add: w scenario_fields scenario_center)
qed

subsection \<open>Further properties of the frame loop and of the depth\<close>

text \<open>
  With world-space output, every frame with at least one tracked feature raises
  \<open>ValueError\<close>, whatever the camera's position: the array of shape (5,) never fits the
  position's shape (3,).
\<close>

theorem world_space_raises:
  assumes "\<not> find_in_camera_space self" and "good_new \<noteq> []" and "good_old \<noteq> []"
  shows "get_frame_points self (Some good_new) good_old = Inl ValueError"
proof -
  obtain new news where n: "good_new = new # news" using assms(2) by (cases good_new) auto
  obtain old olds where p: "good_old = old # olds" using assms(3) by (cases good_old) auto
  obtain p0 p1 p2 where cp: "camera_pos self = (p0, p1, p2)" by (cases "camera_pos self")
  have "np_add (calculate_camera_space_position_of_feature self new old)
          (vec3_array (camera_pos self)) = Inl ValueError"
    by (simp add: np_add_def vec3_array_def cp calculate_camera_space_position_of_feature_def Let_def)
  then show ?thesis
    using assms(1) by (simp add: get_frame_points_def n p Let_def)
qed

theorem world_space_raises_witness:
  "\<not> find_in_camera_space (scenario_camera (Fin 0, Fin 0, Fin 1) zero3 False)
   \<and> [(Fin 341, Fin 180), (Fin 100, Fin 50)] \<noteq> []
   \<and> [(Fin 340, Fin 180), (Fin 101, Fin 52)] \<noteq> []
   \<and> get_frame_points (scenario_camera (Fin 0, Fin 0, Fin 1) zero3 False)
        (Some [(Fin 341, Fin 180), (Fin 100, Fin 50)]) [(Fin 340, Fin 180), (Fin 101, Fin 52)]
       = Inl ValueError"
proof -
  have a: "\<not> find_in_camera_space (scenario_camera (Fin 0, Fin 0, Fin 1) zero3 False)"
    by (simp add: scenario_fields)
  have b: "[(Fin 341, Fin 180), (Fin 100, Fin 50)] \<noteq> []" by simp
  have c: "[(Fin 340, Fin 180), (Fin 101, Fin 52)] \<noteq> []" by simp
  from world_space_raises [OF a b c] a show ?thesis by simp
qed

text \<open>When the tracker returns no new points, the frame's result is empty.\<close>

theorem no_tracked_points: "get_frame_points self None good_old = Inr []"
  by (simp add: get_frame_points_def)

text \<open>
  Sign convention. Under pure forward motion (velocity \<open>(0, 0, v)\<close> with \<open>v > 0\<close>, no
  angular velocity), a feature off the center whose disparity points away from the center
  along the radial direction, with magnitude \<open>m > 0\<close>, has the positive finite depth
  \<open>f / (m * v * 10)\<close>.
\<close>

theorem receding_feature_positive_depth:
  assumes c: "center self = (Fin cx, Fin cy)" and ne: "(ox, oy) \<noteq> (cx, cy)"
    and vel: "camera_vel self = (Fin 0, Fin 0, Fin v)" and v: "0 < v"
    and rvel: "camera_rvel self = zero3"
    and f: "focal_length self = Fin f" and fpos: "0 < f" and m: "0 < m"
  shows "\<exists>rx ry. calcVanishingPoint self (Fin ox, Fin oy) = (Fin rx, Fin ry)
          \<and> calculate_distance_from_disparity self (Fin ox, Fin oy) (Fin (- (m * rx)), Fin (- (m * ry)))
              = Fin (f / (m * v * 10))
          \<and> 0 < f / (m * v * 10)"
proof -
  obtain rx ry where r: "calcVanishingPoint self (Fin ox, Fin oy) = (Fin rx, Fin ry)"
    and u: "rx\<^sup>2 + ry\<^sup>2 = 1"
    using c ne by (rule calcVanishingPoint_unit)
  have "rx * (m * rx) + ry * (m * ry) = m * (rx\<^sup>2 + ry\<^sup>2)"
    by (simp add: power2_eq_square algebra_simps)
  then have z: "rx * (m * rx) + ry * (m * ry) = m" using u by simp
  have w: "weighted_disparity self (Fin ox, Fin oy) (Fin (- (m * rx)), Fin (- (m * ry))) = Fin (m * v)"
    unfolding weighted_disparity_radial [OF r vel rvel] using z by simp
  have mv: "m * v \<noteq> 0" using m v by simp
  have d: "calculate_distance_from_disparity self (Fin ox, Fin oy) (Fin (- (m * rx)), Fin (- (m * ry)))
             = Fin (f / (m * v * 10))"
    using mv by (simp add: calculate_distance_weighted w calcDistance_def f)
  have "0 < f / (m * v * 10)" using fpos m v by simp
  with r d show ?thesis by blast
qed

theorem receding_feature_positive_depth_witness:
  "center (scenario_camera (Fin 0, Fin 0, Fin 1) zero3 True) = (Fin 320, Fin 180)
   \<and> (340, 180) \<noteq> (320 :: real, 180 :: real)
   \<and> camera_vel (scenario_camera (Fin 0, Fin 0, Fin 1) zero3 True) = (Fin 0, Fin 0, Fin 1)
   \<and> (0 :: real) < 1
   \<and> camera_rvel (scenario_camera (Fin 0, Fin 0, Fin 1) zero3 True) = zero3
   \<and> focal_length (scenario_camera (Fin 0, Fin 0, Fin 1) zero3 True) = Fin (38199 / 1000)
   \<and> (0 :: real) < 38199 / 1000
   \<and> (0 :: real) < 2
   \<and> calculate_distance_from_disparity (scenario_camera (Fin 0, Fin 0, Fin 1) zero3 True)
        (Fin 340, Fin 180) (Fin 2, Fin 0) = Fin (38199 / 20000)"
proof -
  let ?self = "scenario_camera (Fin 0, Fin 0, Fin 1) zero3 True"
  have c: "center ?self = (Fin 320, Fin 180)" by (rule scenario_center)
  have ne: "(340, 180) \<noteq> (320 :: real, 180 :: real)" by simp
  have vel: "camera_vel ?self = (Fin 0, Fin 0, Fin 1)" by (rule scenario_fields)
  have rvel: "camera_rvel ?self = zero3" by (rule scenario_fields)
  have f: "focal_length ?self = Fin (38199 / 1000)" by (rule scenario_fields)
  have p: "(0 :: real) < 1" "(0 :: real) < 38199 / 1000" "(0 :: real) < 2" by simp_all
  have r: "calcVanishingPoint ?self (Fin 340, Fin 180) = (Fin (- 1), Fin 0)"
    by (rule scenario_radial)
  from receding_feature_positive_depth [OF c ne vel p(1) rvel f p(2) p(3)]
  have "calculate_distance_from_disparity ?self (Fin 340, Fin 180) (Fin 2, Fin 0)
          = Fin (38199 / 20000)"
    unfolding r by auto
  then show ?thesis using c ne vel rvel f by simp
qed

end
